theory Spec2Isabelle
  imports Main
begin

section \<open>Stopwatch manager (src/app/page.tsx)\<close>

text \<open>
  Times are integer milliseconds since the epoch, as \<^verbatim>\<open>Date.now()\<close> returns them.
  The clock is not part of the state: every operation that calls \<^verbatim>\<open>now()\<close> takes
  the reading \<open>t\<close> as an argument. The state setters are given pure updater functions
  \<^verbatim>\<open>(prev) => next\<close>; each operation below is that function.
\<close>

subsection \<open>The record\<close>

text \<open>
  \<^verbatim>\<open>type Stopwatch = { id: string; name: string; isRunning: boolean;
                     startedAt: number | null; elapsed: number }\<close>
  The field \<^verbatim>\<open>id\<close> is called \<open>id_sw\<close> here (\<open>id\<close> is the identity function of HOL);
  \<^verbatim>\<open>null\<close> is \<open>None\<close>.
\<close>

record Stopwatch =
  id_sw :: string
  name :: string
  isRunning :: bool
  startedAt :: "int option"
  elapsed :: int

subsection \<open>Numbers as text\<close>

text \<open>
  \<^verbatim>\<open>String(n)\<close> of an integer is its decimal numeral, with a minus sign when negative;
  \<^verbatim>\<open>s.padStart(targetLength, padString)\<close> puts copies of the pad string, cut to the
  missing length, in front of a string that is too short. \<^verbatim>\<open>a % b\<close> takes the sign of
  the dividend.
\<close>

definition digit_char :: "nat \<Rightarrow> char" where
  "digit_char d = ''0123456789'' ! d"

fun string_of_nat :: "nat \<Rightarrow> string" where
  "string_of_nat n =
     (if n < 10 then [digit_char n]
      else string_of_nat (n div 10) @ [digit_char (n mod 10)])"

declare string_of_nat.simps [simp del]

definition String_of :: "int \<Rightarrow> string" where
  "String_of n =
     (if n < 0 then CHR ''-'' # string_of_nat (nat (- n)) else string_of_nat (nat n))"

definition padStart :: "string \<Rightarrow> nat \<Rightarrow> string \<Rightarrow> string" where
  "padStart s targetLength padString =
     (if targetLength \<le> length s \<or> padString = [] then s
      else take (targetLength - length s)
             (concat (replicate (targetLength - length s) padString)) @ s)"

definition js_rem :: "int \<Rightarrow> int \<Rightarrow> int" where
  "js_rem a b = (if a < 0 then - ((- a) mod \<bar>b\<bar>) else a mod \<bar>b\<bar>)"

subsection \<open>format\<close>

text \<open>
  \<^verbatim>\<open>Math.floor(a / b)\<close> with a positive constant \<open>b\<close> is \<open>a div b\<close> (integer division
  in HOL rounds down).
\<close>

definition format :: "int \<Rightarrow> string" where
  "format ms0 =
     (let negative = ms0 < 0;
          ms = (if negative then - ms0 else ms0);
          hours = ms div 3600000;
          minutes = js_rem ms 3600000 div 60000;
          seconds = js_rem ms 60000 div 1000;
          hundredths = js_rem ms 1000 div 10;
          h = (if hours > 0 then padStart (String_of hours) 2 ''0'' @ '':'' else '''');
          m = padStart (String_of minutes) 2 ''0'';
          s = padStart (String_of seconds) 2 ''0'';
          hs = padStart (String_of hundredths) 2 ''0''
      in (if negative then ''-'' else '''') @ h @ m @ '':'' @ s @ ''.'' @ hs)"

text \<open>The specification's reading of a two-digit field: tens digit, then units digit.\<close>

definition two_digits :: "int \<Rightarrow> string" where
  "two_digits n = [digit_char (nat n div 10), digit_char (nat n mod 10)]"

subsection \<open>Operations on one record and on the list\<close>

text \<open>
  Where the source has checked \<^verbatim>\<open>sw.startedAt != null\<close>, the number is
  \<open>the (startedAt sw)\<close>.
\<close>

definition computedElapsed :: "int \<Rightarrow> Stopwatch \<Rightarrow> int" where
  "computedElapsed t sw =
     (if isRunning sw \<and> startedAt sw \<noteq> None
      then elapsed sw + (t - the (startedAt sw))
      else elapsed sw)"

text \<open>
  \<^verbatim>\<open>addStopwatch\<close>: \<open>uid\<close> is the value of \<^verbatim>\<open>crypto.randomUUID()\<close>.
\<close>

definition addStopwatch :: "string \<Rightarrow> Stopwatch list \<Rightarrow> Stopwatch list" where
  "addStopwatch uid prev =
     prev @ [\<lparr>id_sw = uid,
              name = ''Stopwatch '' @ String_of (int (length prev) + 1),
              isRunning = False, startedAt = None, elapsed = 0\<rparr>]"

definition deleteStopwatch :: "string \<Rightarrow> Stopwatch list \<Rightarrow> Stopwatch list" where
  "deleteStopwatch i prev = filter (\<lambda>sw. id_sw sw \<noteq> i) prev"

definition start :: "int \<Rightarrow> string \<Rightarrow> Stopwatch list \<Rightarrow> Stopwatch list" where
  "start t i prev =
     map (\<lambda>sw. if id_sw sw = i \<and> \<not> isRunning sw
               then sw\<lparr>isRunning := True, startedAt := Some t\<rparr>
               else sw) prev"

definition stop :: "int \<Rightarrow> string \<Rightarrow> Stopwatch list \<Rightarrow> Stopwatch list" where
  "stop t i prev =
     map (\<lambda>sw. if id_sw sw = i \<and> isRunning sw \<and> startedAt sw \<noteq> None
               then sw\<lparr>isRunning := False,
                       elapsed := elapsed sw + (t - the (startedAt sw)),
                       startedAt := None\<rparr>
               else sw) prev"

definition reset :: "string \<Rightarrow> Stopwatch list \<Rightarrow> Stopwatch list" where
  "reset i prev =
     map (\<lambda>sw. if id_sw sw = i
               then sw\<lparr>elapsed := 0, startedAt := None, isRunning := False\<rparr>
               else sw) prev"

definition rename :: "string \<Rightarrow> string \<Rightarrow> Stopwatch list \<Rightarrow> Stopwatch list" where
  "rename i nm prev = map (\<lambda>sw. if id_sw sw = i then sw\<lparr>name := nm\<rparr> else sw) prev"

text \<open>The invariant of the data model: a running stopwatch has a start time.\<close>

definition inv_sw :: "Stopwatch \<Rightarrow> bool" where
  "inv_sw sw = (isRunning sw \<longrightarrow> startedAt sw \<noteq> None)"

section \<open>Recipe collection service (route handlers, src/unnamed/part_000)\<close>

subsection \<open>Request bodies\<close>

text \<open>
  \<^verbatim>\<open>await request.json()\<close> either rejects (the body is not JSON: \<open>None\<close> below) or
  gives a value. The handlers never check the type of a property, only whether it is
  truthy, so a body is kept as a value of JavaScript: \<open>JUndefined\<close> is what reading a
  missing property gives. Numbers are kept as integers; the handlers only ask whether a
  number is zero. \<open>get_prop\<close> reads a property: of an object the last entry with that
  key (as \<^verbatim>\<open>JSON.parse\<close> keeps it), of anything else \<^verbatim>\<open>undefined\<close>, since no
  prototype defines \<^verbatim>\<open>id\<close>, \<^verbatim>\<open>title\<close> or \<^verbatim>\<open>content\<close>. The destructuring
  \<^verbatim>\<open>const { title, content } = body\<close> throws a TypeError on \<^verbatim>\<open>null\<close> and
  \<^verbatim>\<open>undefined\<close>.
\<close>

datatype jsval =
    JUndefined
  | JNull
  | JBool bool
  | JNum int
  | JStr string
  | JArr "jsval list"
  | JObj "(string \<times> jsval) list"

fun get_prop :: "jsval \<Rightarrow> string \<Rightarrow> jsval" where
  "get_prop (JObj props) k = (case map_of (rev props) k of Some v \<Rightarrow> v | None \<Rightarrow> JUndefined)"
| "get_prop v k = JUndefined"

fun truthy :: "jsval \<Rightarrow> bool" where
  "truthy JUndefined = False"
| "truthy JNull = False"
| "truthy (JBool b) = b"
| "truthy (JNum n) = (n \<noteq> 0)"
| "truthy (JStr s) = (s \<noteq> [])"
| "truthy (JArr xs) = True"
| "truthy (JObj props) = True"

definition destructurable :: "jsval \<Rightarrow> bool" where
  "destructurable v = (v \<noteq> JUndefined \<and> v \<noteq> JNull)"

subsection \<open>Recipes, responses, the key-value store\<close>

text \<open>
  A stored recipe carries whatever truthy values the request gave as title and content.
  A response is its status and its JSON payload (\<^verbatim>\<open>NextResponse.json(x)\<close> has status
  200 unless one is given). The store holds one value under the key \<^verbatim>\<open>recipes\<close>
  (\<open>None\<close>: the key is absent, \<^verbatim>\<open>kv.get\<close> gives \<^verbatim>\<open>null\<close>) and the list of the
  calls made to it so far. \<open>io\<close> is what a single request takes from outside: whether
  its \<^verbatim>\<open>kv.get\<close> and \<^verbatim>\<open>kv.set\<close> calls resolve or reject, the value of
  \<^verbatim>\<open>crypto.randomUUID()\<close>, and the value of the \<open>k\<close>-th call of \<^verbatim>\<open>Date.now()\<close>
  in the handler. A rejected \<^verbatim>\<open>kv.set\<close> leaves the stored value as it was. An
  exception is \<open>Inl\<close> of the store at the moment it is thrown.
\<close>

record Recipe =
  id_r :: string
  title :: jsval
  content :: jsval
  createdAt :: int
  updatedAt :: int

datatype payload =
    Recipes "Recipe list"
  | OneRecipe Recipe
  | Error string
  | Success bool

record response =
  status :: nat
  payload :: payload

datatype kv_call = KvGet | KvSet "Recipe list"

record kv =
  stored :: "Recipe list option"
  calls :: "kv_call list"

record io =
  kv_get_ok :: bool
  kv_set_ok :: bool
  randomUUID :: string
  Date_now :: "nat \<Rightarrow> int"

definition kv_get :: "io \<Rightarrow> kv \<Rightarrow> kv + (Recipe list option \<times> kv)" where
  "kv_get env st =
     (let st1 = st\<lparr>calls := calls st @ [KvGet]\<rparr>
      in if kv_get_ok env then Inr (stored st, st1) else Inl st1)"

definition kv_set :: "io \<Rightarrow> Recipe list \<Rightarrow> kv \<Rightarrow> kv + kv" where
  "kv_set env v st =
     (let st1 = st\<lparr>calls := calls st @ [KvSet v]\<rparr>
      in if kv_set_ok env then Inr (st1\<lparr>stored := Some v\<rparr>) else Inl st1)"

text \<open>\<^verbatim>\<open>(await kv.get(RECIPES_KEY)) || []\<close>: an array, also an empty one, is truthy.\<close>

definition or_empty :: "Recipe list option \<Rightarrow> Recipe list" where
  "or_empty v = (case v of None \<Rightarrow> [] | Some rs \<Rightarrow> rs)"

fun findIndex :: "('a \<Rightarrow> bool) \<Rightarrow> 'a list \<Rightarrow> int" where
  "findIndex P [] = - 1"
| "findIndex P (x # xs) =
     (if P x then 0 else (let r = findIndex P xs in if r = - 1 then - 1 else r + 1))"

subsection \<open>The four handlers\<close>

text \<open>
  Each handler is the body of its \<^verbatim>\<open>try\<close> block (\<open>_try\<close>) and the \<^verbatim>\<open>catch\<close>
  around it, which answers 500.
\<close>

definition json_response :: "payload \<Rightarrow> nat \<Rightarrow> response" where
  "json_response p st = \<lparr>status = st, payload = p\<rparr>"

definition GET :: "io \<Rightarrow> kv \<Rightarrow> response \<times> kv" where
  "GET env st =
     (case kv_get env st of
        Inl st1 \<Rightarrow> (json_response (Recipes []) 500, st1)
      | Inr (v, st1) \<Rightarrow> (json_response (Recipes (or_empty v)) 200, st1))"

definition POST_try :: "io \<Rightarrow> jsval option \<Rightarrow> kv \<Rightarrow> kv + (response \<times> kv)" where
  "POST_try env body st =
     (case body of
        None \<Rightarrow> Inl st
      | Some b \<Rightarrow>
          if \<not> destructurable b then Inl st
          else
            let title_v = get_prop b ''title''; content_v = get_prop b ''content''
            in if \<not> truthy title_v \<or> \<not> truthy content_v
               then Inr (json_response (Error ''Title and content are required'') 400, st)
               else
                 (case kv_get env st of
                    Inl st1 \<Rightarrow> Inl st1
                  | Inr (v, st1) \<Rightarrow>
                      let recipes = or_empty v;
                          newRecipe = \<lparr>id_r = randomUUID env, title = title_v,
                                       content = content_v,
                                       createdAt = Date_now env 0,
                                       updatedAt = Date_now env 1\<rparr>;
                          recipes2 = recipes @ [newRecipe]
                      in (case kv_set env recipes2 st1 of
                            Inl st2 \<Rightarrow> Inl st2
                          | Inr st2 \<Rightarrow> Inr (json_response (OneRecipe newRecipe) 201, st2))))"

definition POST :: "io \<Rightarrow> jsval option \<Rightarrow> kv \<Rightarrow> response \<times> kv" where
  "POST env body st =
     (case POST_try env body st of
        Inr r \<Rightarrow> r
      | Inl st1 \<Rightarrow> (json_response (Error ''Failed to create recipe'') 500, st1))"

definition PUT_try :: "io \<Rightarrow> jsval option \<Rightarrow> kv \<Rightarrow> kv + (response \<times> kv)" where
  "PUT_try env body st =
     (case body of
        None \<Rightarrow> Inl st
      | Some b \<Rightarrow>
          if \<not> destructurable b then Inl st
          else
            let id_v = get_prop b ''id''; title_v = get_prop b ''title'';
                content_v = get_prop b ''content''
            in if \<not> truthy id_v \<or> \<not> truthy title_v \<or> \<not> truthy content_v
               then Inr (json_response (Error ''ID, title, and content are required'') 400, st)
               else
                 (case kv_get env st of
                    Inl st1 \<Rightarrow> Inl st1
                  | Inr (v, st1) \<Rightarrow>
                      let recipes = or_empty v;
                          index = findIndex (\<lambda>r. JStr (id_r r) = id_v) recipes
                      in if index = - 1
                         then Inr (json_response (Error ''Recipe not found'') 404, st1)
                         else
                           let recipes2 = recipes[nat index :=
                                  (recipes ! nat index)\<lparr>title := title_v, content := content_v,
                                                         updatedAt := Date_now env 0\<rparr>]
                           in (case kv_set env recipes2 st1 of
                                 Inl st2 \<Rightarrow> Inl st2
                               | Inr st2 \<Rightarrow>
                                   Inr (json_response (OneRecipe (recipes2 ! nat index)) 200, st2))))"

definition PUT :: "io \<Rightarrow> jsval option \<Rightarrow> kv \<Rightarrow> response \<times> kv" where
  "PUT env body st =
     (case PUT_try env body st of
        Inr r \<Rightarrow> r
      | Inl st1 \<Rightarrow> (json_response (Error ''Failed to update recipe'') 500, st1))"

definition DELETE_try :: "io \<Rightarrow> string option \<Rightarrow> kv \<Rightarrow> kv + (response \<times> kv)" where
  "DELETE_try env id_param st =
     (case id_param of
        None \<Rightarrow> Inr (json_response (Error ''ID is required'') 400, st)
      | Some i \<Rightarrow>
          if i = [] then Inr (json_response (Error ''ID is required'') 400, st)
          else
            (case kv_get env st of
               Inl st1 \<Rightarrow> Inl st1
             | Inr (v, st1) \<Rightarrow>
                 let recipes = or_empty v;
                     filteredRecipes = filter (\<lambda>r. id_r r \<noteq> i) recipes
                 in if length recipes = length filteredRecipes
                    then Inr (json_response (Error ''Recipe not found'') 404, st1)
                    else
                      (case kv_set env filteredRecipes st1 of
                         Inl st2 \<Rightarrow> Inl st2
                       | Inr st2 \<Rightarrow> Inr (json_response (Success True) 200, st2))))"

definition DELETE :: "io \<Rightarrow> string option \<Rightarrow> kv \<Rightarrow> response \<times> kv" where
  "DELETE env id_param st =
     (case DELETE_try env id_param st of
        Inr r \<Rightarrow> r
      | Inl st1 \<Rightarrow> (json_response (Error ''Failed to delete recipe'') 500, st1))"

subsection \<open>Sample inputs\<close>

definition sw_a :: Stopwatch where
  "sw_a = \<lparr>id_sw = ''a'', name = ''Eggs'', isRunning = True, startedAt = Some 1000, elapsed = 250\<rparr>"

definition sw_b :: Stopwatch where
  "sw_b = \<lparr>id_sw = ''b'', name = ''Tea'', isRunning = False, startedAt = None, elapsed = 70\<rparr>"

definition tea_body :: jsval where
  "tea_body = JObj [(''title'', JStr ''Tea''), (''content'', JStr ''Boil water'')]"

definition empty_kv :: kv where
  "empty_kv = \<lparr>stored = None, calls = []\<rparr>"

definition still_env :: io where
  "still_env = \<lparr>kv_get_ok = True, kv_set_ok = True, randomUUID = ''uuid-1'',
                 Date_now = (\<lambda>k. 1000)\<rparr>"

definition tick_env :: io where
  "tick_env = \<lparr>kv_get_ok = True, kv_set_ok = True, randomUUID = ''uuid-1'',
                Date_now = (\<lambda>k. 1000 + int k)\<rparr>"

definition tea_recipe :: Recipe where
  "tea_recipe = \<lparr>id_r = ''uuid-1'', title = JStr ''Tea'', content = JStr ''Boil water'',
                  createdAt = 1000, updatedAt = 1000\<rparr>"

definition ticked_recipe :: Recipe where
  "ticked_recipe = \<lparr>id_r = ''uuid-1'', title = JStr ''Tea'', content = JStr ''Boil water'',
                     createdAt = 1000, updatedAt = 1001\<rparr>"

definition no_title_body :: jsval where
  "no_title_body = JObj [(''title'', JStr []), (''content'', JStr ''Boil water'')]"

definition other_id_body :: jsval where
  "other_id_body =
     JObj [(''id'', JStr ''uuid-2''), (''title'', JStr ''Tea''), (''content'', JStr ''Steep'')]"

definition tea_kv :: kv where
  "tea_kv = \<lparr>stored = Some [tea_recipe], calls = []\<rparr>"

section \<open>Properties of the stopwatch manager\<close>

text \<open>
  C1. \<open>computedElapsed\<close> at time \<open>t\<close> is \<open>elapsed\<close> for a stopwatch that is not running and
  \<open>elapsed + (t - s)\<close> for a running one, \<open>s\<close> being its start time (a running stopwatch
  has one by the invariant of the data model; for a record that breaks the invariant the
  guard of the source gives \<open>elapsed\<close>). For every record the value does not decrease
  when the time grows.
\<close>

theorem computedElapsed_spec:
  "(\<not> isRunning sw \<longrightarrow> computedElapsed t sw = elapsed sw)
   \<and> (isRunning sw \<longrightarrow> startedAt sw = Some s \<longrightarrow> computedElapsed t sw = elapsed sw + (t - s))
   \<and> (t1 \<le> t2 \<longrightarrow> computedElapsed t1 sw \<le> computedElapsed t2 sw)"
  by (cases "startedAt sw") (simp_all add: computedElapsed_def)

theorem computedElapsed_spec_witness:
  "isRunning sw_a \<and> startedAt sw_a = Some 1000 \<and> (1500::int) \<le> 1800
   \<and> computedElapsed 1500 sw_a = 750
   \<and> computedElapsed 1500 sw_a \<le> computedElapsed 1800 sw_a
   \<and> \<not> isRunning sw_b \<and> computedElapsed 1500 sw_b = 70"
  using computedElapsed_spec [of sw_a 1500 1000 1500 1800]
        computedElapsed_spec [of sw_b 1500 0 1500 1800]
  by (simp add: sw_a_def sw_b_def)

text \<open>
  C2. For a running stopwatch with start time \<open>s\<close> and accumulated time \<open>e\<close>, stop at
  \<open>t1\<close>, then start at \<open>t2\<close>, then stop at \<open>t3\<close> leaves it stopped, without a start
  time, with \<open>elapsed = e + (t1 - s) + (t3 - t2)\<close>: the two running intervals are
  added. The order of the three times is not needed.
\<close>

theorem stop_start_stop_accumulates:
  assumes "k < length sws" and "id_sw (sws ! k) = i" and "isRunning (sws ! k)"
    and "startedAt (sws ! k) = Some s" and "elapsed (sws ! k) = e"
  shows "length (stop t3 i (start t2 i (stop t1 i sws))) = length sws
    \<and> stop t3 i (start t2 i (stop t1 i sws)) ! k =
        (sws ! k)\<lparr>elapsed := e + (t1 - s) + (t3 - t2), isRunning := False, startedAt := None\<rparr>"
  using assms by (simp add: stop_def start_def)

theorem stop_start_stop_accumulates_witness:
  "(0::nat) < length [sw_a, sw_b] \<and> id_sw ([sw_a, sw_b] ! 0) = ''a''
   \<and> isRunning ([sw_a, sw_b] ! 0) \<and> startedAt ([sw_a, sw_b] ! 0) = Some 1000
   \<and> elapsed ([sw_a, sw_b] ! 0) = 250
   \<and> stop 1900 ''a'' (start 1700 ''a'' (stop 1500 ''a'' [sw_a, sw_b])) ! 0 =
       \<lparr>id_sw = ''a'', name = ''Eggs'', isRunning = False, startedAt = None, elapsed = 950\<rparr>"
  using stop_start_stop_accumulates [of 0 "[sw_a, sw_b]" "''a''" 1000 250 1900 1700 1500]
  by (simp add: sw_a_def)

subsection \<open>Decimal fields of the formatter\<close>

lemma digit_char_numerals:
  "digit_char 0 = CHR ''0''" "digit_char 1 = CHR ''1''" "digit_char 2 = CHR ''2''"
  "digit_char 3 = CHR ''3''" "digit_char 4 = CHR ''4''" "digit_char 5 = CHR ''5''"
  "digit_char 6 = CHR ''6''" "digit_char 7 = CHR ''7''" "digit_char 8 = CHR ''8''"
  "digit_char 9 = CHR ''9''" "digit_char (Suc 0) = CHR ''1''"
  by (simp_all add: digit_char_def)

lemma string_of_nat_two:
  assumes "n < 100"
  shows "padStart (string_of_nat n) 2 ''0'' = [digit_char (n div 10), digit_char (n mod 10)]"
proof (cases "n < 10")
  case True
  then show ?thesis
    by (simp add: string_of_nat.simps [of n] padStart_def digit_char_numerals)
next
  case False
  with assms have "n div 10 < 10" by simp
  with False show ?thesis
    by (simp add: string_of_nat.simps [of n] string_of_nat.simps [of "n div 10"] padStart_def)
qed

lemma pad_two_digits:
  assumes "0 \<le> n" and "n < 100"
  shows "padStart (String_of n) 2 ''0'' = two_digits n"
  using assms by (simp add: String_of_def two_digits_def string_of_nat_two)

lemma js_rem_nonneg: "0 \<le> a \<Longrightarrow> 0 < b \<Longrightarrow> js_rem a b = a mod b"
  by (simp add: js_rem_def)

lemma length_padStart: "targetLength \<le> length (padStart s targetLength [c])"
  by (simp add: padStart_def)

lemma length_two_digits: "length (two_digits n) = 2"
  by (simp add: two_digits_def)

lemma format_nonneg:
  assumes "0 \<le> ms"
  shows "format ms =
     (if ms div 3600000 = 0 then [] else padStart (String_of (ms div 3600000)) 2 ''0'' @ '':'')
     @ two_digits (ms mod 3600000 div 60000) @ '':''
     @ two_digits (ms mod 60000 div 1000) @ ''.''
     @ two_digits (ms mod 1000 div 10)"
proof -
  have h: "0 \<le> ms div 3600000" using assms by simp
  have m: "0 \<le> ms mod 3600000 div 60000" "ms mod 3600000 div 60000 < 100"
    by (simp_all add: pos_imp_zdiv_nonneg_iff)
  have s: "0 \<le> ms mod 60000 div 1000" "ms mod 60000 div 1000 < 100"
    by simp_all
  have hs: "0 \<le> ms mod 1000 div 10" "ms mod 1000 div 10 < 100"
    by simp_all
  show ?thesis
    using assms h
    by (auto simp add: format_def Let_def js_rem_nonneg pad_two_digits m s hs)
qed

lemma format_length:
  assumes "0 \<le> ms"
  shows "length (format ms) = 8 \<longleftrightarrow> ms div 3600000 = 0"
proof (cases "ms div 3600000 = 0")
  case True
  then show ?thesis
    by (simp add: format_nonneg [OF assms] length_two_digits)
next
  case False
  have "2 \<le> length (padStart (String_of (ms div 3600000)) 2 ''0'')"
    by (rule length_padStart)
  with False show ?thesis
    by (simp add: format_nonneg [OF assms] length_two_digits)
qed

lemma format_neg: "ms < 0 \<Longrightarrow> format ms = ''-'' @ format \<bar>ms\<bar>"
  by (simp add: format_def Let_def)

text \<open>
  C3. The three examples of the specification; for \<open>ms \<ge> 0\<close> the text is the hour
  field (absent exactly when \<open>ms div 3600000 = 0\<close>, which is when the text has the eight
  characters of \<open>MM:SS.hh\<close>; otherwise the hours padded to two digits and a colon), then
  minutes and seconds as two digits each, then the hundredths \<open>ms mod 1000 div 10\<close> as
  two digits; for \<open>ms < 0\<close> it is a minus sign and the text of the absolute value.
\<close>

theorem format_spec:
  "format 0 = ''00:00.00'' \<and> format 61230 = ''01:01.23'' \<and> format 3661000 = ''01:01:01.00''
   \<and> (0 \<le> ms \<longrightarrow>
        format ms =
          (if ms div 3600000 = 0 then []
           else padStart (String_of (ms div 3600000)) 2 ''0'' @ '':'')
          @ two_digits (ms mod 3600000 div 60000) @ '':''
          @ two_digits (ms mod 60000 div 1000) @ ''.''
          @ two_digits (ms mod 1000 div 10)
        \<and> (length (format ms) = 8 \<longleftrightarrow> ms div 3600000 = 0))
   \<and> (ms < 0 \<longrightarrow> format ms = ''-'' @ format \<bar>ms\<bar>)"
proof -
  have "format 0 = ''00:00.00''"
    by (simp add: format_nonneg two_digits_def digit_char_numerals)
  moreover have "format 61230 = ''01:01.23''"
    by (simp add: format_nonneg two_digits_def digit_char_numerals)
  moreover have "format 3661000 = ''01:01:01.00''"
    by (simp add: format_nonneg pad_two_digits two_digits_def digit_char_numerals)
  ultimately show ?thesis
    using format_nonneg [of ms] format_length [of ms] format_neg [of ms] by blast
qed

theorem format_spec_witness:
  "(0::int) \<le> 7322450 \<and> format 7322450 = ''02:02:02.45'' \<and> length (format 7322450) \<noteq> 8
   \<and> (- 61230 :: int) < 0 \<and> format (- 61230) = ''-01:01.23''"
  using format_spec [of 7322450] format_spec [of "- 61230"]
  by (simp add: pad_two_digits two_digits_def digit_char_numerals)

text \<open>
  C4. If every record of the list satisfies the invariant (a running stopwatch has a
  start time), so does every record of the list after \<open>addStopwatch\<close>,
  \<open>deleteStopwatch\<close>, \<open>start\<close>, \<open>stop\<close>, \<open>reset\<close> and \<open>rename\<close>.
\<close>

theorem invariant_preserved:
  assumes "\<forall>sw \<in> set sws. inv_sw sw"
  shows "(\<forall>sw \<in> set (addStopwatch uid sws). inv_sw sw)
       \<and> (\<forall>sw \<in> set (deleteStopwatch i sws). inv_sw sw)
       \<and> (\<forall>sw \<in> set (start t i sws). inv_sw sw)
       \<and> (\<forall>sw \<in> set (stop t i sws). inv_sw sw)
       \<and> (\<forall>sw \<in> set (reset i sws). inv_sw sw)
       \<and> (\<forall>sw \<in> set (rename i nm sws). inv_sw sw)"
  using assms
  by (auto simp: addStopwatch_def deleteStopwatch_def start_def stop_def reset_def rename_def
        inv_sw_def split: option.splits)

theorem invariant_preserved_witness:
  "list_all inv_sw [sw_a, sw_b]
   \<and> list_all inv_sw (addStopwatch ''c'' [sw_a, sw_b])
   \<and> list_all inv_sw (deleteStopwatch ''a'' [sw_a, sw_b])
   \<and> list_all inv_sw (start 2000 ''b'' [sw_a, sw_b])
   \<and> list_all inv_sw (stop 2000 ''a'' [sw_a, sw_b])
   \<and> list_all inv_sw (reset ''a'' [sw_a, sw_b])
   \<and> list_all inv_sw (rename ''a'' ''Rice'' [sw_a, sw_b])
   \<and> start 2000 ''b'' [sw_a, sw_b] ! 1 = sw_b\<lparr>isRunning := True, startedAt := Some 2000\<rparr>"
proof -
  have h: "\<forall>sw \<in> set [sw_a, sw_b]. inv_sw sw"
    by (simp add: inv_sw_def sw_a_def sw_b_def)
  have "start 2000 ''b'' [sw_a, sw_b] ! 1 = sw_b\<lparr>isRunning := True, startedAt := Some 2000\<rparr>"
    by (simp add: start_def sw_a_def sw_b_def)
  with h invariant_preserved [OF h, of "''c''" "''a''" 2000 "''Rice''"]
    invariant_preserved [OF h, of "''c''" "''b''" 2000 "''Rice''"]
  show ?thesis unfolding list_all_iff by blast
qed

text \<open>
  C5. \<open>reset i\<close> keeps the length of the list and turns every record with id \<open>i\<close>,
  whatever its state was, into the record with the same id and name, not running,
  without a start time and with \<open>elapsed = 0\<close>.
\<close>

theorem reset_spec:
  "length (reset i sws) = length sws
   \<and> (\<forall>k < length sws. id_sw (sws ! k) = i \<longrightarrow>
         reset i sws ! k = \<lparr>id_sw = id_sw (sws ! k), name = name (sws ! k),
                             isRunning = False, startedAt = None, elapsed = 0\<rparr>)"
  by (simp add: reset_def)

theorem reset_spec_witness:
  "(0::nat) < length [sw_a, sw_b] \<and> id_sw ([sw_a, sw_b] ! 0) = ''a''
   \<and> reset ''a'' [sw_a, sw_b] ! 0 =
       \<lparr>id_sw = ''a'', name = ''Eggs'', isRunning = False, startedAt = None, elapsed = 0\<rparr>"
  using reset_spec [of "''a''" "[sw_a, sw_b]"]
  by (simp add: sw_a_def)

text \<open>
  C10. \<open>start\<close>, \<open>stop\<close>, \<open>reset\<close> and \<open>rename\<close> keep the length of the list and leave
  the record at every position whose id is not the target as it was; for these four and
  for \<open>deleteStopwatch\<close>, the records with another id are the same, in the same order,
  before and after.
\<close>

theorem frame_other_records:
  "length (start t i sws) = length sws \<and> length (stop t i sws) = length sws
   \<and> length (reset i sws) = length sws \<and> length (rename i nm sws) = length sws
   \<and> (\<forall>k < length sws. id_sw (sws ! k) \<noteq> i \<longrightarrow>
         start t i sws ! k = sws ! k \<and> stop t i sws ! k = sws ! k
         \<and> reset i sws ! k = sws ! k \<and> rename i nm sws ! k = sws ! k)
   \<and> filter (\<lambda>sw. id_sw sw \<noteq> i) (start t i sws) = filter (\<lambda>sw. id_sw sw \<noteq> i) sws
   \<and> filter (\<lambda>sw. id_sw sw \<noteq> i) (stop t i sws) = filter (\<lambda>sw. id_sw sw \<noteq> i) sws
   \<and> filter (\<lambda>sw. id_sw sw \<noteq> i) (reset i sws) = filter (\<lambda>sw. id_sw sw \<noteq> i) sws
   \<and> filter (\<lambda>sw. id_sw sw \<noteq> i) (rename i nm sws) = filter (\<lambda>sw. id_sw sw \<noteq> i) sws
   \<and> filter (\<lambda>sw. id_sw sw \<noteq> i) (deleteStopwatch i sws) = filter (\<lambda>sw. id_sw sw \<noteq> i) sws"
proof -
  have pos: "\<forall>k < length sws. id_sw (sws ! k) \<noteq> i \<longrightarrow>
         start t i sws ! k = sws ! k \<and> stop t i sws ! k = sws ! k
         \<and> reset i sws ! k = sws ! k \<and> rename i nm sws ! k = sws ! k"
    by (simp add: start_def stop_def reset_def rename_def split: option.split)
  have fil: "filter (\<lambda>sw. id_sw sw \<noteq> i) (start t i sws) = filter (\<lambda>sw. id_sw sw \<noteq> i) sws
   \<and> filter (\<lambda>sw. id_sw sw \<noteq> i) (stop t i sws) = filter (\<lambda>sw. id_sw sw \<noteq> i) sws
   \<and> filter (\<lambda>sw. id_sw sw \<noteq> i) (reset i sws) = filter (\<lambda>sw. id_sw sw \<noteq> i) sws
   \<and> filter (\<lambda>sw. id_sw sw \<noteq> i) (rename i nm sws) = filter (\<lambda>sw. id_sw sw \<noteq> i) sws
   \<and> filter (\<lambda>sw. id_sw sw \<noteq> i) (deleteStopwatch i sws) = filter (\<lambda>sw. id_sw sw \<noteq> i) sws"
    by (induction sws)
       (auto simp: start_def stop_def reset_def rename_def deleteStopwatch_def
             split: option.splits)
  have len: "length (start t i sws) = length sws \<and> length (stop t i sws) = length sws
   \<and> length (reset i sws) = length sws \<and> length (rename i nm sws) = length sws"
    by (simp add: start_def stop_def reset_def rename_def)
  from pos fil len show ?thesis by blast
qed

theorem frame_other_records_witness:
  "(1::nat) < length [sw_a, sw_b] \<and> id_sw ([sw_a, sw_b] ! 1) \<noteq> ''a''
   \<and> start 2000 ''a'' [sw_a, sw_b] ! 1 = sw_b \<and> stop 2000 ''a'' [sw_a, sw_b] ! 1 = sw_b
   \<and> reset ''a'' [sw_a, sw_b] ! 1 = sw_b \<and> rename ''a'' ''Rice'' [sw_a, sw_b] ! 1 = sw_b
   \<and> filter (\<lambda>sw. id_sw sw \<noteq> ''a'') (deleteStopwatch ''a'' [sw_a, sw_b]) = [sw_b]"
  using frame_other_records [of 2000 "''a''" "[sw_a, sw_b]" "''Rice''"]
  by (simp add: sw_a_def sw_b_def)

section \<open>Properties of the recipe collection service\<close>

lemma truthy_prop_destructurable: "truthy (get_prop b k) \<Longrightarrow> destructurable b"
  by (cases b) (simp_all add: destructurable_def)

lemma findIndex_absent: "(\<forall>x \<in> set xs. \<not> P x) \<Longrightarrow> findIndex P xs = - 1"
  by (induction xs) simp_all

text \<open>
  C6, as the code has it. A Create request whose title or content is falsy (missing or
  empty), and also one whose body is not JSON, leaves the store exactly as it was, with
  no call made to it; when the body is a JSON value other than \<open>null\<close> the answer is
  status 400.
\<close>

theorem POST_rejects_missing_fields:
  "snd (POST env None st) = st
   \<and> (\<not> truthy (get_prop b ''title'') \<or> \<not> truthy (get_prop b ''content'') \<longrightarrow>
        snd (POST env (Some b) st) = st
        \<and> (destructurable b \<longrightarrow>
             fst (POST env (Some b) st) =
               \<lparr>status = 400, payload = Error ''Title and content are required''\<rparr>))"
  by (auto simp: POST_def POST_try_def json_response_def Let_def)

theorem POST_rejects_missing_fields_witness:
  "\<not> truthy (get_prop no_title_body ''title'') \<and> destructurable no_title_body
   \<and> POST still_env (Some no_title_body) tea_kv =
       (\<lparr>status = 400, payload = Error ''Title and content are required''\<rparr>, tea_kv)
   \<and> snd (POST still_env None tea_kv) = tea_kv"
proof -
  have d: "destructurable no_title_body"
    by (simp add: no_title_body_def destructurable_def)
  have t: "\<not> truthy (get_prop no_title_body ''title'')"
    by (simp add: no_title_body_def)
  from POST_rejects_missing_fields [of still_env tea_kv no_title_body] d t
  show ?thesis by (simp add: prod_eq_iff)
qed

text \<open>
  C6 as stated fails: \<^verbatim>\<open>await request.json()\<close> and the destructuring of the body are
  inside the \<^verbatim>\<open>try\<close> block, before the check of the two fields. A request whose body is
  the JSON value \<open>null\<close> has neither title nor content; the destructuring throws and the
  \<^verbatim>\<open>catch\<close> block answers 500, not 400. A request with no JSON body is answered 500 in
  the same way.
\<close>

theorem POST_null_body_counterexample:
  "\<not> truthy (get_prop JNull ''title'') \<and> \<not> truthy (get_prop JNull ''content'')
   \<and> fst (POST still_env (Some JNull) empty_kv) =
       \<lparr>status = 500, payload = Error ''Failed to create recipe''\<rparr>
   \<and> status (fst (POST still_env (Some JNull) empty_kv)) \<noteq> 400
   \<and> fst (POST still_env None empty_kv) =
       \<lparr>status = 500, payload = Error ''Failed to create recipe''\<rparr>"
  by (simp add: POST_def POST_try_def json_response_def destructurable_def)

text \<open>
  What Create does on an empty store. A Create request with truthy title and content,
  on a store whose collection is absent or empty and whose calls succeed, reads the
  store, writes back the list of exactly one new record and answers 201 with that
  record; the record has the given title and content and the generated id, and its two
  time stamps are the values of the two calls of \<^verbatim>\<open>Date.now()\<close>; a List request that
  follows answers 200 with exactly that record.
\<close>

lemma POST_on_empty_store:
  assumes "truthy (get_prop b ''title'')" and "truthy (get_prop b ''content'')"
    and "or_empty (stored st) = []"
    and "kv_get_ok env" and "kv_set_ok env" and "kv_get_ok env2"
  shows "(let r = \<lparr>id_r = randomUUID env, title = get_prop b ''title'',
                   content = get_prop b ''content'',
                   createdAt = Date_now env 0, updatedAt = Date_now env 1\<rparr>
          in POST env (Some b) st =
               (\<lparr>status = 201, payload = OneRecipe r\<rparr>,
                \<lparr>stored = Some [r], calls = calls st @ [KvGet, KvSet [r]]\<rparr>)
             \<and> fst (GET env2 (snd (POST env (Some b) st))) =
                 \<lparr>status = 200, payload = Recipes [r]\<rparr>)"
proof -
  have d: "destructurable b"
    using assms(1) by (rule truthy_prop_destructurable)
  show ?thesis
    using assms d
    by (simp add: POST_def POST_try_def GET_def json_response_def Let_def kv_get_def
          kv_set_def or_empty_def)
qed

text \<open>
  C7 fails on the time stamps: the handler calls \<^verbatim>\<open>Date.now()\<close> once for \<open>createdAt\<close>
  and once more for \<open>updatedAt\<close>. When the clock moves from 1000 to 1001 between the
  two calls, the request \<open>{title: "Tea", content: "Boil water"}\<close> on an empty store is
  answered 201 with a record that has \<open>createdAt = 1000\<close> and \<open>updatedAt = 1001\<close>, and
  that record is what the store then holds.
\<close>

theorem POST_timestamps_differ:
  "truthy (get_prop tea_body ''title'') \<and> truthy (get_prop tea_body ''content'')
   \<and> stored empty_kv = None
   \<and> POST tick_env (Some tea_body) empty_kv =
       (\<lparr>status = 201, payload = OneRecipe ticked_recipe\<rparr>,
        \<lparr>stored = Some [ticked_recipe], calls = [KvGet, KvSet [ticked_recipe]]\<rparr>)
   \<and> createdAt ticked_recipe \<noteq> updatedAt ticked_recipe"
  by (simp add: POST_def POST_try_def json_response_def Let_def kv_get_def kv_set_def
        or_empty_def tea_body_def empty_kv_def tick_env_def ticked_recipe_def
        destructurable_def)

text \<open>
  C8. An Update request with truthy id, title and content, when the read of the store
  succeeds and no stored record has that id, answers 404; the store keeps its value and
  the only call made to it is the read.
\<close>

theorem PUT_unknown_id:
  assumes "truthy (get_prop b ''id'')" and "truthy (get_prop b ''title'')"
    and "truthy (get_prop b ''content'')"
    and "kv_get_ok env"
    and "\<forall>r \<in> set (or_empty (stored st)). JStr (id_r r) \<noteq> get_prop b ''id''"
  shows "PUT env (Some b) st =
           (\<lparr>status = 404, payload = Error ''Recipe not found''\<rparr>,
            \<lparr>stored = stored st, calls = calls st @ [KvGet]\<rparr>)"
proof -
  have d: "destructurable b"
    using assms(1) by (rule truthy_prop_destructurable)
  have f: "findIndex (\<lambda>r. JStr (id_r r) = get_prop b ''id'') (or_empty (stored st)) = - 1"
    using assms(5) by (simp add: findIndex_absent)
  show ?thesis
    using assms(1-4) d f
    by (simp add: PUT_def PUT_try_def json_response_def Let_def kv_get_def)
qed

theorem PUT_unknown_id_witness:
  "truthy (get_prop other_id_body ''id'') \<and> truthy (get_prop other_id_body ''title'')
   \<and> truthy (get_prop other_id_body ''content'') \<and> kv_get_ok still_env
   \<and> or_empty (stored tea_kv) = [tea_recipe]
   \<and> JStr (id_r tea_recipe) \<noteq> get_prop other_id_body ''id''
   \<and> PUT still_env (Some other_id_body) tea_kv =
       (\<lparr>status = 404, payload = Error ''Recipe not found''\<rparr>,
        \<lparr>stored = Some [tea_recipe], calls = [KvGet]\<rparr>)"
proof -
  have h: "truthy (get_prop other_id_body ''id'')" "truthy (get_prop other_id_body ''title'')"
    "truthy (get_prop other_id_body ''content'')" "kv_get_ok still_env"
    "\<forall>r \<in> set (or_empty (stored tea_kv)). JStr (id_r r) \<noteq> get_prop other_id_body ''id''"
    by (simp_all add: other_id_body_def still_env_def tea_kv_def tea_recipe_def or_empty_def)
  have g: "or_empty (stored tea_kv) = [tea_recipe]"
    "JStr (id_r tea_recipe) \<noteq> get_prop other_id_body ''id''"
    by (simp_all add: other_id_body_def tea_kv_def tea_recipe_def or_empty_def)
  have c: "calls tea_kv = []" "stored tea_kv = Some [tea_recipe]"
    by (simp_all add: tea_kv_def)
  from PUT_unknown_id [OF h, unfolded c append_Nil] h(1-4) g show ?thesis
    by blast
qed

text \<open>
  C9. A Delete request with a non-empty id, on a store that holds exactly one recipe,
  with that id, and whose calls succeed, writes back the empty list and answers 200 with
  \<open>{success: true}\<close>; a second Delete of the same id on the resulting store answers 404,
  and its only call to the store is the read: the collection stays empty.
\<close>

theorem DELETE_only_recipe:
  assumes "i \<noteq> []" and "stored st = Some [r]" and "id_r r = i"
    and "kv_get_ok env" and "kv_set_ok env" and "kv_get_ok env2"
  shows "DELETE env (Some i) st =
           (\<lparr>status = 200, payload = Success True\<rparr>,
            \<lparr>stored = Some [], calls = calls st @ [KvGet, KvSet []]\<rparr>)
       \<and> DELETE env2 (Some i) (snd (DELETE env (Some i) st)) =
           (\<lparr>status = 404, payload = Error ''Recipe not found''\<rparr>,
            \<lparr>stored = Some [], calls = calls st @ [KvGet, KvSet [], KvGet]\<rparr>)"
  using assms
  by (simp add: DELETE_def DELETE_try_def json_response_def Let_def kv_get_def kv_set_def
        or_empty_def)

theorem DELETE_only_recipe_witness:
  "''uuid-1'' \<noteq> [] \<and> stored tea_kv = Some [tea_recipe] \<and> id_r tea_recipe = ''uuid-1''
   \<and> kv_get_ok still_env \<and> kv_set_ok still_env
   \<and> DELETE still_env (Some ''uuid-1'') tea_kv =
       (\<lparr>status = 200, payload = Success True\<rparr>,
        \<lparr>stored = Some [], calls = [KvGet, KvSet []]\<rparr>)
   \<and> DELETE still_env (Some ''uuid-1'') (snd (DELETE still_env (Some ''uuid-1'') tea_kv)) =
       (\<lparr>status = 404, payload = Error ''Recipe not found''\<rparr>,
        \<lparr>stored = Some [], calls = [KvGet, KvSet [], KvGet]\<rparr>)"
proof -
  have h: "''uuid-1'' \<noteq> []" "stored tea_kv = Some [tea_recipe]" "id_r tea_recipe = ''uuid-1''"
    "kv_get_ok still_env" "kv_set_ok still_env"
    by (simp_all add: tea_kv_def tea_recipe_def still_env_def)
  have c: "calls tea_kv = []"
    by (simp add: tea_kv_def)
  from DELETE_only_recipe [OF h h(4), unfolded c append_Nil] h show ?thesis
    by blast
qed

end
